theory Spec2Isabelle
  imports Complex_Main "HOL-Library.AList"
begin

section \<open>Numbers and vectors\<close>

text \<open>
  A JavaScript number is a real, one of the two infinities (\<open>Infinity True\<close> is
  \<open>+Infinity\<close>) or \<open>NaN\<close>. Arithmetic on finite numbers is exact (rounding is not
  modelled) and a zero is always taken as \<open>+0\<close>. Division by zero, \<open>0 * Infinity\<close> and
  \<open>Infinity - Infinity\<close> behave as in the language: they yield an infinity or \<open>NaN\<close>,
  and every comparison with \<open>NaN\<close> is false.
\<close>

datatype jsnum = Num real | Infinity bool | NaN

fun js_neg :: "jsnum \<Rightarrow> jsnum" where
  "js_neg (Num a) = Num (- a)"
| "js_neg (Infinity p) = Infinity (\<not> p)"
| "js_neg NaN = NaN"

fun js_add :: "jsnum \<Rightarrow> jsnum \<Rightarrow> jsnum" where
  "js_add (Num a) (Num b) = Num (a + b)"
| "js_add (Num a) (Infinity q) = Infinity q"
| "js_add (Infinity p) (Num b) = Infinity p"
| "js_add (Infinity p) (Infinity q) = (if p = q then Infinity p else NaN)"
| "js_add NaN b = NaN"
| "js_add a NaN = NaN"

definition js_sub :: "jsnum \<Rightarrow> jsnum \<Rightarrow> jsnum" where
  "js_sub a b = js_add a (js_neg b)"

fun js_mul :: "jsnum \<Rightarrow> jsnum \<Rightarrow> jsnum" where
  "js_mul (Num a) (Num b) = Num (a * b)"
| "js_mul (Num a) (Infinity q) = (if a = 0 then NaN else Infinity ((0 < a) = q))"
| "js_mul (Infinity p) (Num b) = (if b = 0 then NaN else Infinity (p = (0 < b)))"
| "js_mul (Infinity p) (Infinity q) = Infinity (p = q)"
| "js_mul NaN b = NaN"
| "js_mul a NaN = NaN"

fun js_div :: "jsnum \<Rightarrow> jsnum \<Rightarrow> jsnum" where
  "js_div (Num a) (Num b) =
     (if b \<noteq> 0 then Num (a / b) else if a = 0 then NaN else Infinity (0 < a))"
| "js_div (Num a) (Infinity q) = Num 0"
| "js_div (Infinity p) (Num b) = Infinity (p = (0 \<le> b))"
| "js_div (Infinity p) (Infinity q) = NaN"
| "js_div NaN b = NaN"
| "js_div a NaN = NaN"

text \<open>\<open>Math.abs\<close>, \<open>Math.sign\<close> and \<open>Math.min\<close>.\<close>

fun js_abs :: "jsnum \<Rightarrow> jsnum" where
  "js_abs (Num a) = Num \<bar>a\<bar>"
| "js_abs (Infinity p) = Infinity True"
| "js_abs NaN = NaN"

fun js_sign :: "jsnum \<Rightarrow> jsnum" where
  "js_sign (Num a) = Num (sgn a)"
| "js_sign (Infinity p) = Num (if p then 1 else - 1)"
| "js_sign NaN = NaN"

fun js_min :: "jsnum \<Rightarrow> jsnum \<Rightarrow> jsnum" where
  "js_min (Num a) (Num b) = Num (min a b)"
| "js_min (Num a) (Infinity q) = (if q then Num a else Infinity False)"
| "js_min (Infinity p) (Num b) = (if p then Num b else Infinity False)"
| "js_min (Infinity p) (Infinity q) = Infinity (p \<and> q)"
| "js_min NaN b = NaN"
| "js_min a NaN = NaN"


fun js_gt :: "jsnum \<Rightarrow> jsnum \<Rightarrow> bool" where
  "js_gt (Num a) (Num b) = (b < a)"
| "js_gt (Num a) (Infinity q) = (\<not> q)"
| "js_gt (Infinity p) (Num b) = p"
| "js_gt (Infinity p) (Infinity q) = (p \<and> \<not> q)"
| "js_gt NaN b = False"
| "js_gt a NaN = False"

fun js_eq :: "jsnum \<Rightarrow> jsnum \<Rightarrow> bool" where
  "js_eq NaN b = False"
| "js_eq a NaN = False"
| "js_eq a b = (a = b)"

text \<open>
  \<open>a || 0\<close> on a number: the falsy numbers are zero and \<open>NaN\<close>; an absent value
  (\<open>undefined\<close>) is falsy as well.
\<close>

fun js_or_zero :: "jsnum option \<Rightarrow> jsnum" where
  "js_or_zero None = Num 0"
| "js_or_zero (Some NaN) = Num 0"
| "js_or_zero (Some a) = a"

text \<open>
  \<open>Vector2\<close>: the components \<open>x\<close> and \<open>y\<close>, which the class also offers as
  \<open>width\<close> and \<open>height\<close>. The methods are the ones the compositor calls; each call
  in the source is on a fresh \<open>clone()\<close>, so they are pure here.
\<close>

record vector2 =
  vx :: jsnum
  vy :: jsnum

definition multiplyByScalar :: "vector2 \<Rightarrow> jsnum \<Rightarrow> vector2" where
  "multiplyByScalar v k = \<lparr>vx = js_mul (vx v) k, vy = js_mul (vy v) k\<rparr>"

definition vsub :: "vector2 \<Rightarrow> vector2 \<Rightarrow> vector2" where
  "vsub v w = \<lparr>vx = js_sub (vx v) (vx w), vy = js_sub (vy v) (vy w)\<rparr>"

definition vadd :: "vector2 \<Rightarrow> vector2 \<Rightarrow> vector2" where
  "vadd v w = \<lparr>vx = js_add (vx v) (vx w), vy = js_add (vy v) (vy w)\<rparr>"

definition vequals :: "vector2 \<Rightarrow> vector2 \<Rightarrow> bool" where
  "vequals v w = (js_eq (vx v) (vx w) \<and> js_eq (vy v) (vy w))"

text \<open>
  Modelled from the spec: \<open>ceilPow2\<close> of \<open>math/Functions\<close>, which is not among the
  sources: a size is "rounded up to the next power of two". The rounding is defined on
  sizes of at least one pixel; any other argument is returned as it is.
\<close>

fun ceilPow2_nat :: "nat \<Rightarrow> nat" where
  "ceilPow2_nat n = (if n \<le> 1 then 1 else 2 * ceilPow2_nat ((n + 1) div 2))"

fun ceilPow2 :: "jsnum \<Rightarrow> jsnum" where
  "ceilPow2 (Num a) = (if 1 \<le> a then Num (real (ceilPow2_nat (nat \<lceil>a\<rceil>))) else Num a)"
| "ceilPow2 (Infinity p) = Infinity p"
| "ceilPow2 NaN = NaN"

section \<open>The fragment shader\<close>

text \<open>
  \<open>fragment.glsl\<close>. A GLSL \<open>float\<close> is a real here, and a \<open>vec4\<close> its four components
  \<open>r g b a\<close>. A sampler is the function \<open>texture2D\<close> computes for it, from a coordinate
  and a bias. \<open>getMaskValue\<close> and \<open>compositeColors\<close> come from the included \<open>mask.frag\<close>
  and \<open>blend.frag\<close>, which are not among the sources, so they are inputs of the shader;
  a \<open>getMaskValue\<close> that returns a \<open>float\<close> is one whose four components agree.
\<close>

type_synonym vec2 = "real \<times> real"

datatype vec4 = Vec4 real real real real

fun rgb_times :: "vec4 \<Rightarrow> real \<Rightarrow> vec4" where
  "rgb_times (Vec4 r g b a) k = Vec4 (r * k) (g * k) (b * k) a"

fun times_float :: "vec4 \<Rightarrow> real \<Rightarrow> vec4" where
  "times_float (Vec4 r g b a) k = Vec4 (r * k) (g * k) (b * k) (a * k)"

fun times_vec4 :: "vec4 \<Rightarrow> vec4 \<Rightarrow> vec4" where
  "times_vec4 (Vec4 r g b a) (Vec4 r' g' b' a') = Vec4 (r * r') (g * g') (b * b') (a * a')"

fun rgb_over :: "vec4 \<Rightarrow> real \<Rightarrow> vec4" where
  "rgb_over (Vec4 r g b a) k = Vec4 (r / k) (g / k) (b / k) a"

fun rgb_zero :: "vec4 \<Rightarrow> vec4" where
  "rgb_zero (Vec4 r g b a) = Vec4 0 0 0 a"

fun alpha :: "vec4 \<Rightarrow> real" where
  "alpha (Vec4 r g b a) = a"

datatype sampler = ImageMap | LayerMap | MaskMap

record fragment =
  imageMap :: "vec2 \<Rightarrow> real \<Rightarrow> vec4"
  layerMap :: "vec2 \<Rightarrow> real \<Rightarrow> vec4"
  maskMap :: "vec2 \<Rightarrow> real \<Rightarrow> vec4"
  mipmapBias :: real
  convertToPremultipliedAlpha :: int
  maskMode :: int
  blendMode :: int
  maskOpacity :: real
  opacity :: real
  v_image_uv :: vec2
  v_layer_uv :: vec2
  v_mask_uv :: vec2
  getMaskValue :: "vec4 \<Rightarrow> vec4"
  compositeColors :: "vec4 \<Rightarrow> vec4 \<Rightarrow> vec4"

text \<open>
  \<open>all(greaterThanEqual(vec4(v_mask_uv, -v_mask_uv), vec4(lowerBound, -upperBound)))\<close>
\<close>

definition hasMaskData :: "fragment \<Rightarrow> bool" where
  "hasMaskData f =
     (fst (v_mask_uv f) \<ge> 0 \<and> snd (v_mask_uv f) \<ge> 0 \<and>
      - fst (v_mask_uv f) \<ge> - 1 \<and> - snd (v_mask_uv f) \<ge> - 1)"

text \<open>\<open>maskColor\<close> as it is initialised, and as it is handed to \<open>getMaskValue\<close>.\<close>

definition maskSample :: "fragment \<Rightarrow> vec4" where
  "maskSample f =
     (if hasMaskData f then fragment.maskMap f (v_mask_uv f) (fragment.mipmapBias f)
      else Vec4 0 0 0 0)"

definition maskColor :: "fragment \<Rightarrow> vec4" where
  "maskColor f =
     (let c = maskSample f;
          c1 = (if convertToPremultipliedAlpha f = 1 then rgb_times c (alpha c) else c)
      in times_float c1 (fragment.maskOpacity f))"

text \<open>\<open>outputColor\<close> before the blend, and \<open>main\<close>: the value of \<open>gl_FragColor\<close>.\<close>

definition maskedColor :: "fragment \<Rightarrow> vec4" where
  "maskedColor f =
     (let layerColor = fragment.layerMap f (v_layer_uv f) (fragment.mipmapBias f);
          layerColor1 = (if convertToPremultipliedAlpha f = 1
                         then rgb_times layerColor (alpha layerColor) else layerColor);
          outputColor = times_float layerColor1 (fragment.opacity f)
      in if fragment.maskMode f \<noteq> 0 then times_vec4 outputColor (getMaskValue f (maskColor f))
         else outputColor)"

definition main :: "fragment \<Rightarrow> vec4" where
  "main f =
     (let outputColor = maskedColor f in
      if fragment.blendMode f \<noteq> 0 then
        (let imageColor = fragment.imageMap f (v_image_uv f) (fragment.mipmapBias f);
             outputColor1 = (if alpha outputColor > (1/2) / 255
                             then rgb_over outputColor (alpha outputColor)
                             else rgb_zero outputColor)
         in compositeColors f outputColor1 imageColor)
      else outputColor)"

text \<open>
  The samplers an invocation reads: the calls of \<open>texture2D\<close> that \<open>main\<close> reaches, in
  their order. The conditional expression of \<open>maskColor\<close> evaluates the operand it selects
  only.
\<close>

definition sampled :: "fragment \<Rightarrow> sampler list" where
  "sampled f =
     [LayerMap] @
     (if fragment.maskMode f \<noteq> 0 \<and> hasMaskData f then [MaskMap] else []) @
     (if fragment.blendMode f \<noteq> 0 then [ImageMap] else [])"

section \<open>Data model\<close>

text \<open>
  A decoded image is an \<open>ImageBitmap\<close> or an \<open>HTMLImageElement\<close>; a \<open>TexImage2D\<close>, a
  framebuffer and a promise are objects named by a handle.
\<close>

datatype image = ImageBitmap nat | HTMLImageElement nat

type_synonym texImage2D = nat

text \<open>
  The matrix builders of \<open>math/Matrix4.Functions\<close> and \<open>makeMatrix3FromViewToLayerUv\<close>
  are not among the sources: a matrix is represented by the call that builds it, and a
  matrix a layer brings along by a name.
\<close>

datatype matrix4 =
    Matrix4Orthographic jsnum jsnum jsnum jsnum jsnum jsnum
  | Matrix4OrthographicSimple jsnum vector2 jsnum jsnum jsnum jsnum
  | Matrix4Scale jsnum jsnum jsnum
  | Matrix4Named nat

datatype matrix3 =
    Matrix3FromViewToLayerUv vector2 bool
  | Matrix3Named nat

datatype blendState = CopySourceBlendState | BlendStateNamed nat

text \<open>
  \<open>Layer\<close> and \<open>LayerMask\<close> are declared in \<open>Layer.ts\<close>, not among the sources:
  the records hold the members the compositor reads.
\<close>

record layerMask =
  url :: string
  mode :: int
  texImage2D :: texImage2D
  opacity :: "jsnum option"
  viewToLayerUv :: matrix3

record layer =
  url :: string
  mask :: "layerMask option"
  isTriviallyBlended :: bool
  planeToImage :: matrix4
  texImage2D :: texImage2D
  viewToLayerUv :: matrix3
  blendModeUniformValue :: int
  opacity :: jsnum
  blendModeBlendState :: blendState

record layerImage =
  url :: string
  texImage2D :: texImage2D
  image :: "image option"
  disposed :: bool
  renderId :: int

datatype imageFitMode = FitWidth | FitHeight

text \<open>The \<open>UniformValueMap\<close> of a draw; a key that may be absent is an option.\<close>

record uniformValueMap =
  localToView :: matrix4
  viewToScreen :: matrix4
  mipmapBias :: jsnum
  imageMap :: "texImage2D option"
  viewToImageUv :: "matrix3 option"
  layerMap :: "texImage2D option"
  viewToLayerUv :: matrix3
  maskMode :: int
  blendMode :: int
  opacity :: jsnum
  maskMap :: "texImage2D option"
  maskOpacity :: "jsnum option"
  viewToMaskUv :: "matrix3 option"

datatype framebuffer = CanvasFramebuffer | OffscreenFramebuffer nat

text \<open>
  What the compositor does to its collaborators, in the order it does it. The last two
  entries are marks, not calls: the continuation of a load records whether its
  identifier was in \<open>desiredImages\<close> when it ran, and \<open>discardTexImage2D\<close> records an
  identifier it discarded.
\<close>

datatype effect =
    FetchImage string
  | MakeTexImage2DFromTexture texImage2D string image
  | DeleteTexture texImage2D
  | CloseImageBitmap nat
  | NewFramebuffer nat
  | DisposeFramebuffer nat
  | NewColorMipmapAttachment texImage2D vector2
  | Attach nat texImage2D
  | Clear framebuffer
  | RenderBufferGeometry framebuffer uniformValueMap blendState
  | GenerateMipmaps texImage2D
  | LoadCompleted string bool
  | Discarded string

text \<open>
  The promise of a load: the identifier it loads and how it has settled. \<open>Resolved None\<close>
  is the value \<open>null\<close> of a cancelled load.
\<close>

datatype settlement = Pending | Resolved "texImage2D option"

record loadTask =
  taskUrl :: string
  outcome :: settlement

text \<open>
  The state of a \<open>LayerCompositor\<close>: its fields, what it reads of its rendering context
  (the canvas size, the device pixel ratio, whether \<open>ImageBitmap\<close> is supported), and
  the bookkeeping of the model (the promises made, the \<open>TexImage2D\<close> objects disposed,
  the effects so far, the next free handle). \<open>layerImageCache\<close> is an object whose keys
  are enumerated by \<open>render\<close>, hence an association list in insertion order.
\<close>

record compositor =
  layerImageCache :: "(string \<times> layerImage) list"
  texImage2DPromiseCache :: "string \<rightharpoonup> nat"
  desiredImages :: "string set"
  autoDiscard :: bool
  renderId :: int
  imageSize :: vector2
  imageFitMode :: imageFitMode
  zoomScale :: jsnum
  panPosition :: vector2
  layers :: "layer list"
  layerVersion :: int
  offlineLayerVersion :: int
  offscreenSize :: vector2
  offscreenWriteFramebuffer :: "nat option"
  offscreenWriteColorAttachment :: "texImage2D option"
  offscreenReadFramebuffer :: "nat option"
  offscreenReadColorAttachment :: "texImage2D option"
  canvasSize :: vector2
  devicePixelRatio :: jsnum
  imageBitmapSupported :: bool
  tasks :: "loadTask list"
  disposedTexImages :: "texImage2D set"
  effects :: "effect list"
  nextHandle :: nat

text \<open>The compositor as its constructor and field initialisers leave it.\<close>

definition newLayerCompositor :: "vector2 \<Rightarrow> jsnum \<Rightarrow> bool \<Rightarrow> compositor" where
  "newLayerCompositor canvas dpr bitmaps =
     \<lparr>layerImageCache = [], texImage2DPromiseCache = Map.empty, desiredImages = {},
      autoDiscard = False, renderId = 0,
      imageSize = \<lparr>vx = Num 0, vy = Num 0\<rparr>, imageFitMode = FitHeight,
      zoomScale = Num 1, panPosition = \<lparr>vx = Num (1/2), vy = Num (1/2)\<rparr>,
      layers = [], layerVersion = 0, offlineLayerVersion = - 1,
      offscreenSize = \<lparr>vx = Num 0, vy = Num 0\<rparr>,
      offscreenWriteFramebuffer = None, offscreenWriteColorAttachment = None,
      offscreenReadFramebuffer = None, offscreenReadColorAttachment = None,
      canvasSize = canvas, devicePixelRatio = dpr, imageBitmapSupported = bitmaps,
      tasks = [], disposedTexImages = {}, effects = [], nextHandle = 0\<rparr>"

section \<open>Texture cache and asynchronous loader\<close>

definition emit :: "effect list \<Rightarrow> compositor \<Rightarrow> compositor" where
  "emit es s = s\<lparr>effects := effects s @ es\<rparr>"

text \<open>\<open>releaseImage\<close>: only an \<open>ImageBitmap\<close> is closed, and only where it is supported.\<close>

definition releaseImage :: "image option \<Rightarrow> compositor \<Rightarrow> compositor" where
  "releaseImage img s =
     (case img of
        Some (ImageBitmap b) \<Rightarrow> if imageBitmapSupported s then emit [CloseImageBitmap b] s else s
      | _ \<Rightarrow> s)"

text \<open>\<open>TexImage2D.dispose\<close>.\<close>

definition texImage2D_dispose :: "texImage2D \<Rightarrow> compositor \<Rightarrow> compositor" where
  "texImage2D_dispose h s =
     (if h \<notin> disposedTexImages s
      then (emit [DeleteTexture h] s)\<lparr>disposedTexImages := insert h (disposedTexImages s)\<rparr>
      else s)"

text \<open>
  \<open>LayerImage.dispose\<close>. The object is dropped by its only caller right after, so the
  fields it resets are not kept.
\<close>

definition layerImage_dispose :: "layerImage \<Rightarrow> compositor \<Rightarrow> compositor" where
  "layerImage_dispose li s =
     (if \<not> disposed li
      then releaseImage (image li) (texImage2D_dispose (layerImage.texImage2D li) s)
      else s)"

text \<open>\<open>createTexture\<close>: a new \<open>TexImage2D\<close> for the image, wrapped in a \<open>LayerImage\<close>.\<close>

definition createTexture :: "string \<Rightarrow> image \<Rightarrow> compositor \<Rightarrow> layerImage \<times> compositor" where
  "createTexture u img s =
     (let h = nextHandle s in
      (\<lparr>url = u, texImage2D = h, image = Some img, disposed = False, renderId = - 1\<rparr>,
       (emit [MakeTexImage2DFromTexture h u img] s)\<lparr>nextHandle := h + 1\<rparr>))"

definition settle :: "nat \<Rightarrow> texImage2D option \<Rightarrow> compositor \<Rightarrow> compositor" where
  "settle t r s = s\<lparr>tasks := (tasks s)[t := (tasks s ! t)\<lparr>outcome := Resolved r\<rparr>]\<rparr>"

text \<open>
  The body of the task of \<open>loadTexImage2D\<close> from its membership check on: what runs
  after \<open>await fetchImage(url)\<close> (\<open>hadToFetch\<close>), or at once when the caller brought the
  image.
\<close>

definition completeLoad :: "string \<Rightarrow> bool \<Rightarrow> image \<Rightarrow> nat \<Rightarrow> compositor \<Rightarrow> compositor" where
  "completeLoad u hadToFetch img t s0 =
     (let s = emit [LoadCompleted u (u \<in> desiredImages s0)] s0 in
      if u \<notin> desiredImages s then
        (let s1 = s\<lparr>texImage2DPromiseCache := (texImage2DPromiseCache s)(u := None)\<rparr>;
             s2 = (if hadToFetch then releaseImage (Some img) s1 else s1)
         in settle t None s2)
      else
        (let (li, s1) = createTexture u img s;
             s2 = s1\<lparr>layerImageCache := AList.update u li (layerImageCache s1)\<rparr>
         in settle t (Some (layerImage.texImage2D li)) s2))"

text \<open>
  \<open>loadTexImage2D\<close> up to its first suspension. The result is the promise the caller's
  promise follows: the cached one, or the one of the task just started. A task without
  an image starts the fetch and is suspended; a task with one runs to its end at once.
\<close>

definition loadTexImage2D :: "string \<Rightarrow> image option \<Rightarrow> compositor \<Rightarrow> nat \<times> compositor" where
  "loadTexImage2D u img s0 =
     (let s = s0\<lparr>desiredImages := insert u (desiredImages s0)\<rparr> in
      case texImage2DPromiseCache s u of
        Some existingValue \<Rightarrow> (existingValue, s)
      | None \<Rightarrow>
          (let t = length (tasks s);
               s1 = s\<lparr>tasks := tasks s @ [\<lparr>taskUrl = u, outcome = Pending\<rparr>]\<rparr>;
               s2 = (case img of
                       None \<Rightarrow> emit [FetchImage u] s1
                     | Some i \<Rightarrow> completeLoad u False i t s1)
           in (t, s2\<lparr>texImage2DPromiseCache := (texImage2DPromiseCache s2)(u \<mapsto> t)\<rparr>)))"

text \<open>
  The fetch of a suspended task delivers its image and the task resumes. The fetch is an
  external collaborator; the model covers its delivering an image.
\<close>

definition fetchImageDone :: "nat \<Rightarrow> image \<Rightarrow> compositor \<Rightarrow> compositor" where
  "fetchImageDone t img s =
     (if t < length (tasks s) \<and> outcome (tasks s ! t) = Pending
      then completeLoad (taskUrl (tasks s ! t)) True img t s
      else s)"

definition discardTexImage2D :: "string \<Rightarrow> compositor \<Rightarrow> bool \<times> compositor" where
  "discardTexImage2D u s0 =
     (if u \<notin> desiredImages s0 then (False, s0)
      else
        (let s = emit [Discarded u] (s0\<lparr>desiredImages := desiredImages s0 - {u}\<rparr>);
             s1 = (case map_of (layerImageCache s) u of
                     Some li \<Rightarrow> layerImage_dispose li s
                   | None \<Rightarrow> s);
             s2 = s1\<lparr>layerImageCache := AList.delete u (layerImageCache s1)\<rparr>
         in (True, s2\<lparr>texImage2DPromiseCache := (texImage2DPromiseCache s2)(u := None)\<rparr>)))"

section \<open>Offscreen buffers\<close>

text \<open>
  One target of \<open>updateOffscreen\<close>: the framebuffer of the previous generation is
  disposed and a new one made, then the same for its colour attachment, which is
  attached. The source runs these steps once for the write and once for the read target.
\<close>

definition remakeTarget ::
  "nat option \<Rightarrow> texImage2D option \<Rightarrow> compositor \<Rightarrow> (nat \<times> texImage2D) \<times> compositor" where
  "remakeTarget fb att s0 =
     (let s1 = (case fb of Some f \<Rightarrow> emit [DisposeFramebuffer f] s0 | None \<Rightarrow> s0);
          f' = nextHandle s1;
          s2 = (emit [NewFramebuffer f'] s1)\<lparr>nextHandle := f' + 1\<rparr>;
          s3 = (case att of Some a \<Rightarrow> texImage2D_dispose a s2 | None \<Rightarrow> s2);
          a' = nextHandle s3;
          s4 = (emit [NewColorMipmapAttachment a' (offscreenSize s3), Attach f' a'] s3)
                 \<lparr>nextHandle := a' + 1\<rparr>
      in ((f', a'), s4))"

definition updateOffscreen :: "compositor \<Rightarrow> compositor" where
  "updateOffscreen s0 =
     (let offscreenSize' =
            \<lparr>vx = ceilPow2 (vx (imageSize s0)), vy = ceilPow2 (vy (imageSize s0))\<rparr> in
      if offscreenWriteFramebuffer s0 = None \<or> offscreenReadFramebuffer s0 = None \<or>
         \<not> vequals (offscreenSize s0) offscreenSize'
      then
        (let s1 = s0\<lparr>offscreenSize := offscreenSize'\<rparr>;
             ((wfb, watt), s2) =
               remakeTarget (offscreenWriteFramebuffer s1) (offscreenWriteColorAttachment s1) s1;
             s3 = s2\<lparr>offscreenWriteFramebuffer := Some wfb, offscreenWriteColorAttachment := Some watt\<rparr>;
             ((rfb, ratt), s4) =
               remakeTarget (offscreenReadFramebuffer s3) (offscreenReadColorAttachment s3) s3
         in s4\<lparr>offscreenReadFramebuffer := Some rfb, offscreenReadColorAttachment := Some ratt\<rparr>)
      else s0)"

section \<open>Layer stack and blend pipeline\<close>

text \<open>Usage tracking: the cached image of an identifier gets the current render id.\<close>

definition stampRenderId :: "string \<Rightarrow> compositor \<Rightarrow> compositor" where
  "stampRenderId u s =
     (case map_of (layerImageCache s) u of
        Some li \<Rightarrow>
          s\<lparr>layerImageCache :=
              AList.update u (li\<lparr>layerImage.renderId := renderId s\<rparr>) (layerImageCache s)\<rparr>
      | None \<Rightarrow> s)"

text \<open>
  The uniforms of the copy draw and of the layering draw of one layer, given the
  attachment the compositor holds at that moment.
\<close>

definition copyUniforms ::
  "matrix4 \<Rightarrow> matrix3 \<Rightarrow> layer \<Rightarrow> texImage2D option \<Rightarrow> uniformValueMap" where
  "copyUniforms imageToOffscreen viewToImageUv' l offscreenWriteColorAttachment' =
     \<lparr>localToView = planeToImage l, viewToScreen = imageToOffscreen, mipmapBias = Num 0,
      imageMap = offscreenWriteColorAttachment', viewToImageUv = Some viewToImageUv',
      layerMap = offscreenWriteColorAttachment', viewToLayerUv = viewToImageUv',
      maskMode = 0, blendMode = 0, opacity = Num 1,
      maskMap = None, maskOpacity = None, viewToMaskUv = None\<rparr>"

definition layerUniforms ::
  "matrix4 \<Rightarrow> matrix3 \<Rightarrow> layer \<Rightarrow> texImage2D option \<Rightarrow> uniformValueMap" where
  "layerUniforms imageToOffscreen viewToImageUv' l offscreenReadColorAttachment' =
     (let uniforms =
        \<lparr>localToView = planeToImage l, viewToScreen = imageToOffscreen, mipmapBias = Num 0,
         imageMap = offscreenReadColorAttachment', viewToImageUv = Some viewToImageUv',
         layerMap = Some (layer.texImage2D l), viewToLayerUv = layer.viewToLayerUv l,
         maskMode = 0, blendMode = blendModeUniformValue l, opacity = layer.opacity l,
         maskMap = None, maskOpacity = None, viewToMaskUv = None\<rparr>
      in case mask l of
           Some m \<Rightarrow>
             uniforms\<lparr>maskMode := mode m, maskMap := Some (layerMask.texImage2D m),
                      maskOpacity := Some (js_or_zero (layerMask.opacity m)),
                      viewToMaskUv := Some (layerMask.viewToLayerUv m)\<rparr>
         | None \<Rightarrow> uniforms)"

text \<open>
  The callback of \<open>this.#layers.forEach\<close>, with the two targets the enclosing function
  has checked to be there.
\<close>

definition renderLayer ::
  "nat \<Rightarrow> nat \<Rightarrow> matrix4 \<Rightarrow> matrix3 \<Rightarrow> compositor \<Rightarrow> layer \<Rightarrow> compositor" where
  "renderLayer wfb rfb imageToOffscreen viewToImageUv' s0 l =
     (let s1 = stampRenderId (layer.url l) s0;
          s2 = (case mask l of Some m \<Rightarrow> stampRenderId (layerMask.url m) s1 | None \<Rightarrow> s1);
          s3 = (if \<not> isTriviallyBlended l
                then emit [RenderBufferGeometry (OffscreenFramebuffer rfb)
                             (copyUniforms imageToOffscreen viewToImageUv' l
                                (offscreenWriteColorAttachment s2))
                             CopySourceBlendState] s2
                else s2)
      in emit [RenderBufferGeometry (OffscreenFramebuffer wfb)
                 (layerUniforms imageToOffscreen viewToImageUv' l
                    (offscreenReadColorAttachment s3))
                 (blendModeBlendState l)] s3)"

text \<open>
  \<open>renderLayersToFramebuffer\<close>. The attachment whose mipmaps are regenerated is there
  whenever the framebuffers are (\<open>updateOffscreen\<close> makes them together); where it is
  not, the source would fail on \<open>undefined\<close> and the model stops with no further effect.
\<close>

definition renderLayersToFramebuffer :: "compositor \<Rightarrow> compositor" where
  "renderLayersToFramebuffer s0 =
     (let s = updateOffscreen s0 in
      if layerVersion s \<le> offlineLayerVersion s then s
      else
        (let s1 = s\<lparr>offlineLayerVersion := layerVersion s\<rparr> in
         case (offscreenWriteFramebuffer s1, offscreenReadFramebuffer s1) of
           (Some wfb, Some rfb) \<Rightarrow>
             (let s2 = emit [Clear (OffscreenFramebuffer wfb), Clear (OffscreenFramebuffer rfb)] s1;
                  imageToOffscreen =
                    Matrix4Orthographic (Num 0) (vx (offscreenSize s2)) (Num 0)
                      (vy (offscreenSize s2)) (Num (- 1)) (Num 1);
                  viewToImageUv' = Matrix3FromViewToLayerUv (offscreenSize s2) True;
                  s3 = foldl (renderLayer wfb rfb imageToOffscreen viewToImageUv') s2 (layers s2)
              in case offscreenWriteColorAttachment s3 of
                   Some a \<Rightarrow> emit [GenerateMipmaps a] s3
                 | None \<Rightarrow> s3)
         | _ \<Rightarrow> s1))"

section \<open>Viewport transform and presenter\<close>

definition imageToCanvasScale :: "compositor \<Rightarrow> jsnum" where
  "imageToCanvasScale s =
     (case imageFitMode s of
        FitWidth \<Rightarrow> js_div (vx (canvasSize s)) (vx (imageSize s))
      | FitHeight \<Rightarrow> js_div (vy (canvasSize s)) (vy (imageSize s)))"

definition canvasImageSize :: "compositor \<Rightarrow> vector2" where
  "canvasImageSize s = multiplyByScalar (imageSize s) (imageToCanvasScale s)"

text \<open>The clamp of one component of the pan offset.\<close>

definition clampPan :: "jsnum \<Rightarrow> jsnum \<Rightarrow> jsnum" where
  "clampPan offset extent =
     js_mul (js_sign offset) (js_min (js_abs offset) (js_mul extent (Num (1/2))))"

text \<open>\<open>imagePanOffset\<close> of \<open>render\<close> after the clamp, in image space.\<close>

definition imagePanOffset :: "compositor \<Rightarrow> vector2" where
  "imagePanOffset s =
     (let imagePanPosition =
            multiplyByScalar
              (multiplyByScalar (panPosition s) (js_div (Num 1) (imageToCanvasScale s)))
              (devicePixelRatio s);
          imageCanvasSize =
            multiplyByScalar (canvasSize s) (js_div (Num 1) (imageToCanvasScale s));
          offset = vsub imagePanPosition (multiplyByScalar imageCanvasSize (Num (1/2)))
      in \<lparr>vx = clampPan (vx offset) (vx (imageSize s)),
          vy = clampPan (vy offset) (vy (imageSize s))\<rparr>)"

definition canvasImageCenter :: "compositor \<Rightarrow> vector2" where
  "canvasImageCenter s =
     (let center = multiplyByScalar (canvasImageSize s) (Num (1/2)) in
      if js_gt (zoomScale s) (Num 1) then
        (let canvasPanOffset = multiplyByScalar (imagePanOffset s) (imageToCanvasScale s);
             centeredCanvasPanOffset =
               multiplyByScalar canvasPanOffset
                 (js_sub (Num 1) (js_div (Num 1) (zoomScale s)))
         in vadd center centeredCanvasPanOffset)
      else center)"

definition presentUniforms :: "texImage2D \<Rightarrow> compositor \<Rightarrow> uniformValueMap" where
  "presentUniforms offscreenColorAttachment s =
     \<lparr>localToView =
        Matrix4Scale (vx (canvasImageSize s)) (vy (canvasImageSize s)) (Num 1),
      viewToScreen =
        Matrix4OrthographicSimple (vy (canvasSize s)) (canvasImageCenter s) (Num (- 1)) (Num 1)
          (zoomScale s) (js_div (vx (canvasSize s)) (vy (canvasSize s))),
      mipmapBias = Num 0, imageMap = None, viewToImageUv = None,
      layerMap = Some offscreenColorAttachment,
      viewToLayerUv =
        Matrix3FromViewToLayerUv (multiplyByScalar (offscreenSize s) (imageToCanvasScale s)) True,
      maskMode = 0, blendMode = 0, opacity = Num 1,
      maskMap = None, maskOpacity = None, viewToMaskUv = None\<rparr>"

text \<open>
  The body of the \<open>autoDiscard\<close> loop for one key, and the loop over the keys of
  \<open>layerImageCache\<close>. A discard removes the key it is called for only, so the keys still
  to come are the ones the loop started with.
\<close>

definition discardIfStale :: "compositor \<Rightarrow> string \<Rightarrow> compositor" where
  "discardIfStale s u =
     (case map_of (layerImageCache s) u of
        Some li \<Rightarrow>
          if layerImage.renderId li < renderId s then snd (discardTexImage2D u s) else s
      | None \<Rightarrow> s)"

definition discardStale :: "compositor \<Rightarrow> compositor" where
  "discardStale s = foldl discardIfStale s (map fst (layerImageCache s))"

definition present :: "texImage2D \<Rightarrow> compositor \<Rightarrow> compositor" where
  "present offscreenColorAttachment s =
     emit [Clear CanvasFramebuffer,
           RenderBufferGeometry CanvasFramebuffer
             (presentUniforms offscreenColorAttachment s) CopySourceBlendState] s"

definition render :: "compositor \<Rightarrow> compositor" where
  "render s0 =
     (let s1 = renderLayersToFramebuffer (s0\<lparr>renderId := renderId s0 + 1\<rparr>) in
      case offscreenWriteColorAttachment s1 of
        None \<Rightarrow> s1
      | Some offscreenColorAttachment \<Rightarrow>
          (let s2 = present offscreenColorAttachment s1 in
           if autoDiscard s2 then discardStale s2 else s2))"

section \<open>Runs\<close>

text \<open>
  What happens to a compositor, one event at a time: a call of one of its methods, an
  assignment to one of its public fields, a change of the canvas, or the fetch of a
  suspended load delivering its image. \<open>SetLayers\<close> is the setter \<open>layers\<close>.
\<close>

datatype event =
    LoadTexImage2D string "image option"
  | FetchImageDone nat image
  | DiscardTexImage2D string
  | SetLayers "layer list"
  | Render
  | SetImageSize vector2
  | SetImageFitMode imageFitMode
  | SetZoomScale jsnum
  | SetPanPosition vector2
  | SetAutoDiscard bool
  | ResizeCanvas vector2 jsnum

fun step :: "compositor \<Rightarrow> event \<Rightarrow> compositor" where
  "step s (LoadTexImage2D u img) = snd (loadTexImage2D u img s)"
| "step s (FetchImageDone t img) = fetchImageDone t img s"
| "step s (DiscardTexImage2D u) = snd (discardTexImage2D u s)"
| "step s (SetLayers ls) = s\<lparr>layers := ls, layerVersion := layerVersion s + 1\<rparr>"
| "step s Render = render s"
| "step s (SetImageSize v) = s\<lparr>imageSize := v\<rparr>"
| "step s (SetImageFitMode m) = s\<lparr>imageFitMode := m\<rparr>"
| "step s (SetZoomScale z) = s\<lparr>zoomScale := z\<rparr>"
| "step s (SetPanPosition p) = s\<lparr>panPosition := p\<rparr>"
| "step s (SetAutoDiscard b) = s\<lparr>autoDiscard := b\<rparr>"
| "step s (ResizeCanvas v r) = s\<lparr>canvasSize := v, devicePixelRatio := r\<rparr>"

definition run :: "compositor \<Rightarrow> event list \<Rightarrow> compositor" where
  "run s evs = foldl step s evs"

section \<open>The cache invariant, as the spec words it\<close>


text \<open>The same set, computed by replaying the marks from the left.\<close>

fun residentAfter :: "string set \<Rightarrow> effect \<Rightarrow> string set" where
  "residentAfter R (LoadCompleted u d) = (if d then insert u R else R)"
| "residentAfter R (Discarded u) = R - {u}"
| "residentAfter R _ = R"

definition keptIds :: "effect list \<Rightarrow> string set" where
  "keptIds es = foldl residentAfter {} es"



section \<open>Runs between a request and its settlement\<close>






section \<open>What a recomposition does, written out\<close>

text \<open>
  The copy-then-blend protocol in the spec's words: for a layer, the copy step if the
  layer is not trivially blended (a draw into the read target that samples the write
  target's attachment over the layer's own rectangle, without blending), then the blend
  step (a draw of the layer into the write target).
\<close>

definition copyThenBlend ::
  "nat \<Rightarrow> nat \<Rightarrow> texImage2D option \<Rightarrow> texImage2D option \<Rightarrow> matrix4 \<Rightarrow> matrix3 \<Rightarrow> layer
     \<Rightarrow> effect list" where
  "copyThenBlend wfb rfb watt ratt imageToOffscreen viewToImageUv' l =
     (if isTriviallyBlended l then []
      else [RenderBufferGeometry (OffscreenFramebuffer rfb)
              (copyUniforms imageToOffscreen viewToImageUv' l watt) CopySourceBlendState]) @
     [RenderBufferGeometry (OffscreenFramebuffer wfb)
        (layerUniforms imageToOffscreen viewToImageUv' l ratt) (blendModeBlendState l)]"

text \<open>The usage tracking of one layer, on the cache alone.\<close>

definition stampEntry ::
  "int \<Rightarrow> string \<Rightarrow> (string \<times> layerImage) list \<Rightarrow> (string \<times> layerImage) list" where
  "stampEntry rid u al =
     (case map_of al u of
        Some li \<Rightarrow> AList.update u (li\<lparr>layerImage.renderId := rid\<rparr>) al
      | None \<Rightarrow> al)"

definition stampLayer ::
  "int \<Rightarrow> (string \<times> layerImage) list \<Rightarrow> layer \<Rightarrow> (string \<times> layerImage) list" where
  "stampLayer rid al l =
     (case mask l of
        Some m \<Rightarrow> stampEntry rid (layerMask.url m) (stampEntry rid (layer.url l) al)
      | None \<Rightarrow> stampEntry rid (layer.url l) al)"

text \<open>The size the offscreen buffers should have, and whether they must be remade.\<close>

definition roundedSize :: "compositor \<Rightarrow> vector2" where
  "roundedSize s = \<lparr>vx = ceilPow2 (vx (imageSize s)), vy = ceilPow2 (vy (imageSize s))\<rparr>"

definition needsOffscreen :: "compositor \<Rightarrow> bool" where
  "needsOffscreen s =
     (offscreenWriteFramebuffer s = None \<or> offscreenReadFramebuffer s = None \<or>
      \<not> vequals (offscreenSize s) (roundedSize s))"

text \<open>The effects of remaking one target, and of the whole stack of layers.\<close>

definition remakeEffects ::
  "nat option \<Rightarrow> texImage2D option \<Rightarrow> texImage2D set \<Rightarrow> nat \<Rightarrow> vector2 \<Rightarrow> effect list" where
  "remakeEffects fb att gone h sz =
     (case fb of Some f \<Rightarrow> [DisposeFramebuffer f] | None \<Rightarrow> []) @
     [NewFramebuffer h] @
     (case att of Some a \<Rightarrow> if a \<in> gone then [] else [DeleteTexture a] | None \<Rightarrow> []) @
     [NewColorMipmapAttachment (h + 1) sz, Attach h (h + 1)]"

definition alsoGone :: "texImage2D option \<Rightarrow> texImage2D set \<Rightarrow> texImage2D set" where
  "alsoGone att gone = (case att of Some a \<Rightarrow> insert a gone | None \<Rightarrow> gone)"

definition stackEffects :: "nat \<Rightarrow> nat \<Rightarrow> compositor \<Rightarrow> effect list" where
  "stackEffects wfb rfb s =
     [Clear (OffscreenFramebuffer wfb), Clear (OffscreenFramebuffer rfb)] @
     concat (map (copyThenBlend wfb rfb (offscreenWriteColorAttachment s)
                    (offscreenReadColorAttachment s)
                    (Matrix4Orthographic (Num 0) (vx (offscreenSize s)) (Num 0)
                       (vy (offscreenSize s)) (Num (- 1)) (Num 1))
                    (Matrix3FromViewToLayerUv (offscreenSize s) True))
               (layers s)) @
     (case offscreenWriteColorAttachment s of Some a \<Rightarrow> [GenerateMipmaps a] | None \<Rightarrow> [])"




section \<open>Renders between two replacements of the stack\<close>

text \<open>
  An event replaces the stack when it is the setter \<open>layers\<close>. It keeps a rounded size
  unless it assigns an image size that rounds to another one.
\<close>

fun replacesStack :: "event \<Rightarrow> bool" where
  "replacesStack (SetLayers ls) = True"
| "replacesStack e = False"

fun keepsRoundedSize :: "vector2 \<Rightarrow> event \<Rightarrow> bool" where
  "keepsRoundedSize rs (SetImageSize v) = (\<lparr>vx = ceilPow2 (vx v), vy = ceilPow2 (vy v)\<rparr> = rs)"
| "keepsRoundedSize rs e = True"

text \<open>The effects of a discard: its mark, and the release of the texture and the bitmap.\<close>

fun isEviction :: "effect \<Rightarrow> bool" where
  "isEviction (Discarded u) = True"
| "isEviction (DeleteTexture h) = True"
| "isEviction (CloseImageBitmap b) = True"
| "isEviction e = False"

text \<open>
  What the recomposition reads and writes of a state besides the cache. The offscreen
  buffers are composed when they hold the current stack at the current rounded size,
  and allocated when a framebuffer never comes without its attachment.
\<close>

definition gpuView ::
  "compositor \<Rightarrow> (int \<times> int) \<times> (vector2 \<times> vector2) \<times> (nat option \<times> texImage2D option) \<times>
     (nat option \<times> texImage2D option)" where
  "gpuView s =
     ((layerVersion s, offlineLayerVersion s), (imageSize s, offscreenSize s),
      (offscreenWriteFramebuffer s, offscreenWriteColorAttachment s),
      (offscreenReadFramebuffer s, offscreenReadColorAttachment s))"

definition composed :: "compositor \<Rightarrow> bool" where
  "composed s =
     (layerVersion s \<le> offlineLayerVersion s \<and> \<not> needsOffscreen s \<and>
      offscreenWriteColorAttachment s \<noteq> None)"

definition allocated :: "compositor \<Rightarrow> bool" where
  "allocated s =
     (offscreenWriteFramebuffer s = None \<or> offscreenWriteColorAttachment s \<noteq> None)"

section \<open>Example inputs\<close>

definition exampleCompositor :: compositor where
  "exampleCompositor = newLayerCompositor \<lparr>vx = Num 800, vy = Num 600\<rparr> (Num 1) True"




definition exampleFragment :: fragment where
  "exampleFragment =
     \<lparr>fragment.imageMap = (\<lambda>uv bias. Vec4 0 0 0 0), layerMap = (\<lambda>uv bias. Vec4 1 (1/2) 0 1),
      maskMap = (\<lambda>uv bias. Vec4 1 1 1 1), mipmapBias = 0, convertToPremultipliedAlpha = 0,
      maskMode = 1, blendMode = 0, maskOpacity = 1, opacity = 1,
      v_image_uv = (1/2, 1/2), v_layer_uv = (1/2, 1/2), v_mask_uv = (3/2, 1/2),
      getMaskValue = (\<lambda>c. Vec4 (alpha c) (alpha c) (alpha c) (alpha c)),
      compositeColors = (\<lambda>c d. c)\<rparr>"

text \<open>A stack of two layers: a trivially blended one, and a masked one that is not.\<close>

definition baseLayer :: layer where
  "baseLayer =
     \<lparr>layer.url = ''a'', mask = None, isTriviallyBlended = True, planeToImage = Matrix4Named 0,
      texImage2D = 10, viewToLayerUv = Matrix3Named 0, blendModeUniformValue = 0,
      opacity = Num 1, blendModeBlendState = BlendStateNamed 0\<rparr>"

definition multiplyLayer :: layer where
  "multiplyLayer =
     \<lparr>layer.url = ''b'',
      mask = Some \<lparr>layerMask.url = ''m'', mode = 1, texImage2D = 12, opacity = Some (Num 1),
                    viewToLayerUv = Matrix3Named 2\<rparr>,
      isTriviallyBlended = False, planeToImage = Matrix4Named 1,
      texImage2D = 11, viewToLayerUv = Matrix3Named 1, blendModeUniformValue = 3,
      opacity = Num (1/2), blendModeBlendState = CopySourceBlendState\<rparr>"

definition stackedCompositor :: compositor where
  "stackedCompositor =
     run exampleCompositor
       [SetImageSize \<lparr>vx = Num 100, vy = Num 100\<rparr>, SetLayers [baseLayer, multiplyLayer]]"



text \<open>
  Runs with a render: with \<open>autoDiscard\<close> and the image of the one layer loaded; with
  the image size changed after the render; with the image size changed within the same
  rounded size.
\<close>

definition evictingRun :: compositor where
  "evictingRun =
     run exampleCompositor
       [SetAutoDiscard True, SetImageSize \<lparr>vx = Num 100, vy = Num 100\<rparr>,
        LoadTexImage2D ''a'' (Some (ImageBitmap 7)), SetLayers [baseLayer], Render]"

definition resizedRun :: compositor where
  "resizedRun =
     run exampleCompositor
       [SetImageSize \<lparr>vx = Num 100, vy = Num 100\<rparr>, Render,
        SetImageSize \<lparr>vx = Num 1000, vy = Num 1000\<rparr>]"

definition presentedRun :: compositor where
  "presentedRun =
     run exampleCompositor
       [SetImageSize \<lparr>vx = Num 100, vy = Num 100\<rparr>, Render,
        SetImageSize \<lparr>vx = Num 120, vy = Num 100\<rparr>, LoadTexImage2D ''a'' None]"

section \<open>Normal forms of the loader operations\<close>

lemma keptIds_append: "keptIds (es @ es') = foldl residentAfter (keptIds es) es'"
  by (simp add: keptIds_def)

lemma releaseImage_nf:
  "releaseImage img s =
     s\<lparr>effects := effects s @
        (case img of Some (ImageBitmap b) \<Rightarrow> if imageBitmapSupported s then [CloseImageBitmap b] else []
         | _ \<Rightarrow> [])\<rparr>"
  by (simp add: releaseImage_def emit_def split: option.splits image.splits)

lemma layerImage_dispose_nf:
  "layerImage_dispose li s =
     s\<lparr>effects := effects s @
         (if disposed li then []
          else (if layerImage.texImage2D li \<in> disposedTexImages s then []
                else [DeleteTexture (layerImage.texImage2D li)]) @
               (case image li of
                  Some (ImageBitmap b) \<Rightarrow> if imageBitmapSupported s then [CloseImageBitmap b] else []
                | _ \<Rightarrow> [])),
       disposedTexImages :=
         (if disposed li then disposedTexImages s
          else insert (layerImage.texImage2D li) (disposedTexImages s))\<rparr>"
  by (simp add: layerImage_dispose_def texImage2D_dispose_def releaseImage_nf emit_def insert_absorb
      split: option.splits image.splits)

lemma completeLoad_nf:
  "completeLoad u h img t s =
     (if u \<in> desiredImages s
      then s\<lparr>effects := effects s @ [LoadCompleted u True, MakeTexImage2DFromTexture (nextHandle s) u img],
             nextHandle := nextHandle s + 1,
             layerImageCache :=
               AList.update u \<lparr>url = u, texImage2D = nextHandle s, image = Some img,
                                disposed = False, renderId = - 1\<rparr> (layerImageCache s),
             tasks := (tasks s)[t := (tasks s ! t)\<lparr>outcome := Resolved (Some (nextHandle s))\<rparr>]\<rparr>
      else s\<lparr>effects := effects s @ LoadCompleted u False #
               (if h \<and> imageBitmapSupported s
                then (case img of ImageBitmap b \<Rightarrow> [CloseImageBitmap b] | HTMLImageElement e \<Rightarrow> [])
                else []),
             texImage2DPromiseCache := (texImage2DPromiseCache s)(u := None),
             tasks := (tasks s)[t := (tasks s ! t)\<lparr>outcome := Resolved None\<rparr>]\<rparr>)"
  by (simp add: completeLoad_def Let_def emit_def releaseImage_nf createTexture_def settle_def
      split: image.splits)

lemma loadTexImage2D_nf:
  "loadTexImage2D u img s =
     (case texImage2DPromiseCache s u of
        Some e \<Rightarrow> (e, s\<lparr>desiredImages := insert u (desiredImages s)\<rparr>)
      | None \<Rightarrow>
          (length (tasks s),
           case img of
             None \<Rightarrow>
               s\<lparr>desiredImages := insert u (desiredImages s),
                 tasks := tasks s @ [\<lparr>taskUrl = u, outcome = Pending\<rparr>],
                 effects := effects s @ [FetchImage u],
                 texImage2DPromiseCache := (texImage2DPromiseCache s)(u \<mapsto> length (tasks s))\<rparr>
           | Some i \<Rightarrow>
               s\<lparr>desiredImages := insert u (desiredImages s),
                 tasks := tasks s @ [\<lparr>taskUrl = u, outcome = Resolved (Some (nextHandle s))\<rparr>],
                 effects := effects s @ [LoadCompleted u True, MakeTexImage2DFromTexture (nextHandle s) u i],
                 nextHandle := nextHandle s + 1,
                 layerImageCache :=
                   AList.update u \<lparr>url = u, texImage2D = nextHandle s, image = Some i,
                                    disposed = False, renderId = - 1\<rparr> (layerImageCache s),
                 texImage2DPromiseCache := (texImage2DPromiseCache s)(u \<mapsto> length (tasks s))\<rparr>))"
  by (simp add: loadTexImage2D_def Let_def emit_def completeLoad_nf split: option.splits)

lemma discardTexImage2D_nf:
  "discardTexImage2D u s =
     (if u \<notin> desiredImages s then (False, s)
      else (True,
        (case map_of (layerImageCache s) u of
           Some li \<Rightarrow> layerImage_dispose li (s\<lparr>effects := effects s @ [Discarded u]\<rparr>)
         | None \<Rightarrow> s\<lparr>effects := effects s @ [Discarded u]\<rparr>)
        \<lparr>desiredImages := desiredImages s - {u},
         layerImageCache := AList.delete u (layerImageCache s),
         texImage2DPromiseCache := (texImage2DPromiseCache s)(u := None)\<rparr>))"
  by (simp add: discardTexImage2D_def Let_def emit_def layerImage_dispose_nf
      split: option.splits image.splits)

section \<open>The invariant is kept by every operation\<close>


lemma keptIds_no_marks:
  "keptIds (es @
     (if c then []
      else (if d then [] else [DeleteTexture h]) @
           (case img of
              Some (ImageBitmap b) \<Rightarrow> if ok then [CloseImageBitmap b] else []
            | _ \<Rightarrow> []))) = keptIds es"
  by (simp add: keptIds_append split: option.splits image.splits)


















lemma discardIfStale_cases:
  "discardIfStale s u = s \<or> discardIfStale s u = snd (discardTexImage2D u s)"
  by (simp add: discardIfStale_def split: option.splits)









lemma render_unfold:
  "render s =
     (let s1 = renderLayersToFramebuffer (s\<lparr>renderId := renderId s + 1\<rparr>) in
      case offscreenWriteColorAttachment s1 of
        None \<Rightarrow> s1
      | Some a \<Rightarrow> if autoDiscard s1 then discardStale (present a s1) else present a s1)"
  by (simp add: render_def Let_def present_def emit_def split: option.splits)








lemma run_Cons: "run s (e # evs) = run (step s e) evs"
  by (simp add: run_def)

lemma run_Nil: "run s [] = s"
  by (simp add: run_def)








section \<open>A load in flight along a run\<close>










section \<open>Normal forms of the render operations\<close>

lemma stampRenderId_nf:
  "stampRenderId u s = s\<lparr>layerImageCache := stampEntry (renderId s) u (layerImageCache s)\<rparr>"
  by (simp add: stampRenderId_def stampEntry_def split: option.splits)

lemma renderLayer_nf:
  "renderLayer w r m n s l =
     s\<lparr>layerImageCache := stampLayer (renderId s) (layerImageCache s) l,
       effects := effects s @
         copyThenBlend w r (offscreenWriteColorAttachment s) (offscreenReadColorAttachment s) m n l\<rparr>"
  by (simp add: renderLayer_def Let_def stampRenderId_nf stampLayer_def emit_def copyThenBlend_def
      split: option.splits)

lemma forEach_nf:
  "foldl (renderLayer w r m n) s ls =
     s\<lparr>layerImageCache := foldl (stampLayer (renderId s)) (layerImageCache s) ls,
       effects := effects s @
         concat (map (copyThenBlend w r (offscreenWriteColorAttachment s)
                        (offscreenReadColorAttachment s) m n) ls)\<rparr>"
  by (induction ls arbitrary: s) (simp_all add: renderLayer_nf)

lemma remakeTarget_nf:
  "remakeTarget fb att s =
     ((nextHandle s, nextHandle s + 1),
      s\<lparr>effects := effects s @
          remakeEffects fb att (disposedTexImages s) (nextHandle s) (offscreenSize s),
        disposedTexImages := alsoGone att (disposedTexImages s),
        nextHandle := nextHandle s + 2\<rparr>)"
  by (simp add: remakeTarget_def Let_def emit_def texImage2D_dispose_def remakeEffects_def
      alsoGone_def insert_absorb split: option.splits)

lemma updateOffscreen_nf:
  "updateOffscreen s =
     (if needsOffscreen s then
        s\<lparr>offscreenSize := roundedSize s,
          offscreenWriteFramebuffer := Some (nextHandle s),
          offscreenWriteColorAttachment := Some (nextHandle s + 1),
          offscreenReadFramebuffer := Some (nextHandle s + 2),
          offscreenReadColorAttachment := Some (nextHandle s + 3),
          effects := effects s @
            remakeEffects (offscreenWriteFramebuffer s) (offscreenWriteColorAttachment s)
              (disposedTexImages s) (nextHandle s) (roundedSize s) @
            remakeEffects (offscreenReadFramebuffer s) (offscreenReadColorAttachment s)
              (alsoGone (offscreenWriteColorAttachment s) (disposedTexImages s))
              (nextHandle s + 2) (roundedSize s),
          disposedTexImages :=
            alsoGone (offscreenReadColorAttachment s)
              (alsoGone (offscreenWriteColorAttachment s) (disposedTexImages s)),
          nextHandle := nextHandle s + 4\<rparr>
      else s)"
  by (simp add: updateOffscreen_def needsOffscreen_def roundedSize_def Let_def remakeTarget_nf
      numeral_Bit0 add.assoc)

lemma updateOffscreen_keeps:
  "layerVersion (updateOffscreen s) = layerVersion s"
  "offlineLayerVersion (updateOffscreen s) = offlineLayerVersion s"
  "layerImageCache (updateOffscreen s) = layerImageCache s"
  "layers (updateOffscreen s) = layers s"
  "renderId (updateOffscreen s) = renderId s"
  by (simp_all add: updateOffscreen_nf)

lemma updateOffscreen_targets:
  "\<exists>w r. offscreenWriteFramebuffer (updateOffscreen s) = Some w \<and>
         offscreenReadFramebuffer (updateOffscreen s) = Some r"
  by (auto simp: updateOffscreen_nf needsOffscreen_def)

lemma renderLayersToFramebuffer_skip:
  "layerVersion s \<le> offlineLayerVersion s \<Longrightarrow> renderLayersToFramebuffer s = updateOffscreen s"
  by (simp add: renderLayersToFramebuffer_def Let_def updateOffscreen_keeps)

lemma renderLayersToFramebuffer_recompose:
  assumes "offlineLayerVersion s < layerVersion s"
    and "offscreenWriteFramebuffer (updateOffscreen s) = Some w"
    and "offscreenReadFramebuffer (updateOffscreen s) = Some r"
  shows "renderLayersToFramebuffer s =
     (updateOffscreen s)
       \<lparr>offlineLayerVersion := layerVersion s,
        layerImageCache := foldl (stampLayer (renderId s)) (layerImageCache s) (layers s),
        effects := effects (updateOffscreen s) @ stackEffects w r (updateOffscreen s)\<rparr>"
  using assms
  by (simp add: renderLayersToFramebuffer_def Let_def updateOffscreen_keeps forEach_nf emit_def
      stackEffects_def split: option.splits)


lemma ceilPow2_100: "ceilPow2 (Num 100) = Num 128"
  by simp

lemma stackedCompositor_nf:
  "stackedCompositor =
     exampleCompositor\<lparr>imageSize := \<lparr>vx = Num 100, vy = Num 100\<rparr>,
                        layers := [baseLayer, multiplyLayer], layerVersion := 1\<rparr>"
  by (simp add: stackedCompositor_def run_def exampleCompositor_def newLayerCompositor_def)


lemma present_nf:
  "present a s =
     s\<lparr>effects := effects s @
        [Clear CanvasFramebuffer,
         RenderBufferGeometry CanvasFramebuffer (presentUniforms a s) CopySourceBlendState]\<rparr>"
  by (simp add: present_def emit_def)

lemma renderLayersToFramebuffer_nf:
  "\<exists>w r. renderLayersToFramebuffer s =
     (if layerVersion s \<le> offlineLayerVersion s then updateOffscreen s
      else (updateOffscreen s)
        \<lparr>offlineLayerVersion := layerVersion s,
         layerImageCache := foldl (stampLayer (renderId s)) (layerImageCache s) (layers s),
         effects := effects (updateOffscreen s) @ stackEffects w r (updateOffscreen s)\<rparr>)"
proof (cases "layerVersion s \<le> offlineLayerVersion s")
  case True
  then show ?thesis by (simp add: renderLayersToFramebuffer_skip)
next
  case False
  obtain w r where "offscreenWriteFramebuffer (updateOffscreen s) = Some w"
    and "offscreenReadFramebuffer (updateOffscreen s) = Some r"
    using updateOffscreen_targets by blast
  then show ?thesis
    using False renderLayersToFramebuffer_recompose[of s w r] by auto
qed

lemma renderLayersToFramebuffer_keeps:
  "zoomScale (renderLayersToFramebuffer s) = zoomScale s"
  "autoDiscard (renderLayersToFramebuffer s) = autoDiscard s"
  "renderId (renderLayersToFramebuffer s) = renderId s"
  "imageSize (renderLayersToFramebuffer s) = imageSize s"
  "layers (renderLayersToFramebuffer s) = layers s"
  "layerVersion (renderLayersToFramebuffer s) = layerVersion s"
  using renderLayersToFramebuffer_nf[of s]
  by (auto simp: updateOffscreen_nf split: if_splits)

section \<open>The pan position and the render\<close>

lemma pan_frame:
  "updateOffscreen (s\<lparr>panPosition := p\<rparr>) = (updateOffscreen s)\<lparr>panPosition := p\<rparr>"
  "snd (discardTexImage2D u (s\<lparr>panPosition := p\<rparr>)) =
     (snd (discardTexImage2D u s))\<lparr>panPosition := p\<rparr>"
  "stackEffects w r (s\<lparr>panPosition := p\<rparr>) = stackEffects w r s"
  by (simp_all add: updateOffscreen_nf needsOffscreen_def roundedSize_def discardTexImage2D_nf
      layerImage_dispose_nf stackEffects_def split: option.splits image.splits)

lemma pan_discardIfStale:
  "discardIfStale (s\<lparr>panPosition := p\<rparr>) u = (discardIfStale s u)\<lparr>panPosition := p\<rparr>"
  by (simp add: discardIfStale_def pan_frame split: option.splits)

lemma pan_loop:
  "foldl discardIfStale (s\<lparr>panPosition := p\<rparr>) ks =
     (foldl discardIfStale s ks)\<lparr>panPosition := p\<rparr>"
  by (induction ks arbitrary: s) (simp_all add: pan_discardIfStale)

lemma pan_discardStale:
  "discardStale (s\<lparr>panPosition := p\<rparr>) = (discardStale s)\<lparr>panPosition := p\<rparr>"
  by (simp add: discardStale_def pan_loop)

lemma pan_renderLayersToFramebuffer:
  "renderLayersToFramebuffer (s\<lparr>panPosition := p\<rparr>) =
     (renderLayersToFramebuffer s)\<lparr>panPosition := p\<rparr>"
proof (cases "layerVersion s \<le> offlineLayerVersion s")
  case True
  then show ?thesis by (simp add: renderLayersToFramebuffer_skip pan_frame)
next
  case False
  obtain w r where t: "offscreenWriteFramebuffer (updateOffscreen s) = Some w"
    "offscreenReadFramebuffer (updateOffscreen s) = Some r"
    using updateOffscreen_targets by blast
  have a: "renderLayersToFramebuffer s = (updateOffscreen s)
        \<lparr>offlineLayerVersion := layerVersion s,
         layerImageCache := foldl (stampLayer (renderId s)) (layerImageCache s) (layers s),
         effects := effects (updateOffscreen s) @ stackEffects w r (updateOffscreen s)\<rparr>"
    using False t by (simp add: renderLayersToFramebuffer_recompose)
  have b: "renderLayersToFramebuffer (s\<lparr>panPosition := p\<rparr>) = ((updateOffscreen s)\<lparr>panPosition := p\<rparr>)
        \<lparr>offlineLayerVersion := layerVersion s,
         layerImageCache := foldl (stampLayer (renderId s)) (layerImageCache s) (layers s),
         effects := effects (updateOffscreen s) @ stackEffects w r (updateOffscreen s)\<rparr>"
    using False t
      renderLayersToFramebuffer_recompose[of "s\<lparr>panPosition := p\<rparr>" w r]
    by (simp add: pan_frame)
  show ?thesis unfolding a b by simp
qed

lemma pan_scale:
  "imageToCanvasScale (s\<lparr>panPosition := p\<rparr>) = imageToCanvasScale s"
  "canvasImageSize (s\<lparr>panPosition := p\<rparr>) = canvasImageSize s"
  by (simp_all add: canvasImageSize_def imageToCanvasScale_def split: imageFitMode.splits)

lemma pan_center:
  "\<not> js_gt (zoomScale s) (Num 1) \<Longrightarrow>
   canvasImageCenter (s\<lparr>panPosition := p\<rparr>) = canvasImageCenter s"
  by (simp add: canvasImageCenter_def pan_scale)

lemma pan_presentUniforms:
  "\<not> js_gt (zoomScale s) (Num 1) \<Longrightarrow>
   presentUniforms a (s\<lparr>panPosition := p\<rparr>) = presentUniforms a s"
  by (simp add: presentUniforms_def pan_center pan_scale)

lemma pan_present:
  "\<not> js_gt (zoomScale s) (Num 1) \<Longrightarrow>
   present a (s\<lparr>panPosition := p\<rparr>) = (present a s)\<lparr>panPosition := p\<rparr>"
  by (simp add: present_nf pan_presentUniforms)

lemma pan_render:
  assumes "\<not> js_gt (zoomScale s) (Num 1)"
  shows "render (s\<lparr>panPosition := p\<rparr>) = (render s)\<lparr>panPosition := p\<rparr>"
proof -
  let ?x = "s\<lparr>renderId := renderId s + 1\<rparr>"
  let ?y = "renderLayersToFramebuffer ?x"
  have x: "(s\<lparr>panPosition := p\<rparr>)\<lparr>renderId := renderId (s\<lparr>panPosition := p\<rparr>) + 1\<rparr> = ?x\<lparr>panPosition := p\<rparr>"
    by simp
  have y: "renderLayersToFramebuffer (?x\<lparr>panPosition := p\<rparr>) = ?y\<lparr>panPosition := p\<rparr>"
    by (rule pan_renderLayersToFramebuffer)
  have z: "\<not> js_gt (zoomScale ?y) (Num 1)"
    using assms by (simp add: renderLayersToFramebuffer_keeps)
  have r1: "render s =
     (case offscreenWriteColorAttachment ?y of None \<Rightarrow> ?y
      | Some a \<Rightarrow> if autoDiscard ?y then discardStale (present a ?y) else present a ?y)"
    by (simp add: render_unfold Let_def)
  have r2: "render (s\<lparr>panPosition := p\<rparr>) =
     (case offscreenWriteColorAttachment ?y of None \<Rightarrow> ?y\<lparr>panPosition := p\<rparr>
      | Some a \<Rightarrow> if autoDiscard ?y then discardStale ((present a ?y)\<lparr>panPosition := p\<rparr>)
                  else (present a ?y)\<lparr>panPosition := p\<rparr>)"
    unfolding render_unfold x y
    by (simp add: Let_def pan_present[OF z] split: option.splits)
  show ?thesis
    unfolding r1 r2 by (simp add: pan_discardStale split: option.splits)
qed

section \<open>Composed buffers stay composed\<close>

lemma gpuView_cong:
  assumes "gpuView s' = gpuView s"
  shows "composed s' = composed s" and "allocated s' = allocated s"
    and "needsOffscreen s' = needsOffscreen s" and "roundedSize s' = roundedSize s"
  using assms
  by (simp_all add: gpuView_def composed_def allocated_def needsOffscreen_def roundedSize_def)

lemma gpuView_loader:
  "gpuView (snd (loadTexImage2D u img s)) = gpuView s"
  "gpuView (completeLoad u h i t s) = gpuView s"
  "gpuView (snd (discardTexImage2D u s)) = gpuView s"
  "gpuView (present a s) = gpuView s"
  by (simp_all add: gpuView_def loadTexImage2D_nf completeLoad_nf discardTexImage2D_nf
      layerImage_dispose_nf present_nf split: option.splits)

lemma gpuView_fetchImageDone: "gpuView (fetchImageDone t i s) = gpuView s"
  by (simp add: fetchImageDone_def gpuView_loader)

lemma gpuView_discardIfStale: "gpuView (discardIfStale s u) = gpuView s"
  using discardIfStale_cases[of s u] by (auto simp: gpuView_loader)

lemma gpuView_loop: "gpuView (foldl discardIfStale s ks) = gpuView s"
  by (induction ks arbitrary: s) (simp_all add: gpuView_discardIfStale)

lemma eviction_discard:
  "\<exists>es. effects (snd (discardTexImage2D u s)) = effects s @ es \<and> list_all isEviction es"
  by (simp add: discardTexImage2D_nf layerImage_dispose_nf split: option.splits image.splits)

lemma eviction_discardIfStale:
  "\<exists>es. effects (discardIfStale s u) = effects s @ es \<and> list_all isEviction es"
  using discardIfStale_cases[of s u] eviction_discard[of u s] by auto

lemma eviction_loop:
  "\<exists>es. effects (foldl discardIfStale s ks) = effects s @ es \<and> list_all isEviction es"
proof (induction ks arbitrary: s)
  case Nil
  show ?case by simp
next
  case (Cons k ks)
  obtain es where a: "effects (discardIfStale s k) = effects s @ es" "list_all isEviction es"
    using eviction_discardIfStale by blast
  obtain es' where b: "effects (foldl discardIfStale (discardIfStale s k) ks) =
      effects (discardIfStale s k) @ es'" "list_all isEviction es'"
    using Cons by blast
  show ?case using a b by (intro exI[of _ "es @ es'"]) simp
qed

lemma composed_skip:
  assumes "composed s"
  shows "renderLayersToFramebuffer (s\<lparr>renderId := r\<rparr>) = s\<lparr>renderId := r\<rparr>"
proof -
  have "layerVersion (s\<lparr>renderId := r\<rparr>) \<le> offlineLayerVersion (s\<lparr>renderId := r\<rparr>)"
    and "\<not> needsOffscreen (s\<lparr>renderId := r\<rparr>)"
    using assms by (simp_all add: composed_def needsOffscreen_def roundedSize_def)
  then show ?thesis
    by (simp add: renderLayersToFramebuffer_skip updateOffscreen_nf)
qed

lemma render_composed:
  assumes "composed s" and "offscreenWriteColorAttachment s = Some a"
  shows "render s =
     (if autoDiscard s then discardStale (present a (s\<lparr>renderId := renderId s + 1\<rparr>))
      else present a (s\<lparr>renderId := renderId s + 1\<rparr>))"
  using assms(2) by (simp add: render_unfold composed_skip[OF assms(1)] Let_def)

lemma gpuView_render_composed:
  assumes "composed s"
  shows "gpuView (render s) = gpuView s"
proof -
  obtain a where a: "offscreenWriteColorAttachment s = Some a"
    using assms by (auto simp: composed_def)
  have "gpuView (present a (s\<lparr>renderId := renderId s + 1\<rparr>)) = gpuView s"
    by (simp add: gpuView_def present_nf)
  then show ?thesis
    by (simp add: render_composed[OF assms a] discardStale_def gpuView_loop)
qed

lemma updateOffscreen_settled:
  "vequals (roundedSize s) (roundedSize s) \<Longrightarrow> \<not> needsOffscreen (updateOffscreen s)"
  by (simp add: updateOffscreen_nf needsOffscreen_def roundedSize_def)

lemma updateOffscreen_allocated:
  "allocated s \<Longrightarrow> offscreenWriteColorAttachment (updateOffscreen s) \<noteq> None"
  by (auto simp: updateOffscreen_nf needsOffscreen_def allocated_def)

lemma gpuView_render: "gpuView (render s) = gpuView (renderLayersToFramebuffer (s\<lparr>renderId := renderId s + 1\<rparr>))"
  by (simp add: render_unfold Let_def discardStale_def gpuView_loop gpuView_loader
      split: option.splits)

lemma renderLayersToFramebuffer_attachment:
  "offscreenWriteColorAttachment (renderLayersToFramebuffer s) =
     offscreenWriteColorAttachment (updateOffscreen s)"
  "needsOffscreen (renderLayersToFramebuffer s) = needsOffscreen (updateOffscreen s)"
  "layerVersion s \<le> offlineLayerVersion (renderLayersToFramebuffer s)"
proof -
  obtain w r where t: "offscreenWriteFramebuffer (updateOffscreen s) = Some w"
    "offscreenReadFramebuffer (updateOffscreen s) = Some r"
    using updateOffscreen_targets by blast
  have "offscreenWriteColorAttachment (renderLayersToFramebuffer s) =
          offscreenWriteColorAttachment (updateOffscreen s) \<and>
        needsOffscreen (renderLayersToFramebuffer s) = needsOffscreen (updateOffscreen s) \<and>
        layerVersion s \<le> offlineLayerVersion (renderLayersToFramebuffer s)"
  proof (cases "layerVersion s \<le> offlineLayerVersion s")
    case True
    then show ?thesis by (simp add: renderLayersToFramebuffer_skip updateOffscreen_keeps)
  next
    case False
    then show ?thesis
      using renderLayersToFramebuffer_recompose[of s w r] t
      by (simp add: needsOffscreen_def roundedSize_def)
  qed
  then show "offscreenWriteColorAttachment (renderLayersToFramebuffer s) =
     offscreenWriteColorAttachment (updateOffscreen s)"
    and "needsOffscreen (renderLayersToFramebuffer s) = needsOffscreen (updateOffscreen s)"
    and "layerVersion s \<le> offlineLayerVersion (renderLayersToFramebuffer s)"
    by simp_all
qed

lemma allocated_render:
  assumes "allocated s"
  shows "allocated (render s)"
proof -
  let ?x = "s\<lparr>renderId := renderId s + 1\<rparr>"
  have "allocated ?x" using assms by (simp add: allocated_def)
  then have "offscreenWriteColorAttachment (renderLayersToFramebuffer ?x) \<noteq> None"
    by (simp add: renderLayersToFramebuffer_attachment updateOffscreen_allocated)
  then have "allocated (renderLayersToFramebuffer ?x)" by (simp add: allocated_def)
  then show ?thesis using gpuView_cong(2)[OF gpuView_render] by simp
qed

lemma composed_render:
  assumes "allocated s" and "vequals (roundedSize s) (roundedSize s)"
  shows "composed (render s)"
proof -
  let ?x = "s\<lparr>renderId := renderId s + 1\<rparr>"
  have a: "allocated ?x" and v: "vequals (roundedSize ?x) (roundedSize ?x)"
    using assms by (simp_all add: allocated_def roundedSize_def)
  have "composed (renderLayersToFramebuffer ?x)"
    unfolding composed_def
    using renderLayersToFramebuffer_attachment(3)[of ?x]
    by (simp add: renderLayersToFramebuffer_attachment(1,2) renderLayersToFramebuffer_keeps
        updateOffscreen_allocated[OF a] updateOffscreen_settled[OF v])
  then show ?thesis using gpuView_cong(1)[OF gpuView_render] by simp
qed

lemma allocated_step: "allocated s \<Longrightarrow> allocated (step s e)"
proof (cases e)
  case Render
  assume "allocated s"
  then show ?thesis using Render by (simp add: allocated_render)
qed (use gpuView_cong(2)[OF gpuView_loader(1)] gpuView_cong(2)[OF gpuView_fetchImageDone]
        gpuView_cong(2)[OF gpuView_loader(3)] in \<open>simp_all add: allocated_def\<close>)

lemma allocated_run: "allocated s \<Longrightarrow> allocated (run s evs)"
  by (induction evs arbitrary: s) (simp_all add: run_Nil run_Cons allocated_step)

lemma allocated_new: "allocated (newLayerCompositor canvas dpr bitmaps)"
  by (simp add: allocated_def newLayerCompositor_def)

lemma composed_step:
  assumes "composed s" and "roundedSize s = rs" and "\<not> replacesStack e"
    and "keepsRoundedSize rs e"
  shows "composed (step s e) \<and> roundedSize (step s e) = rs"
proof (cases e)
  case (LoadTexImage2D u img)
  show ?thesis
    using assms(1,2) gpuView_cong(1)[OF gpuView_loader(1), of u img s]
      gpuView_cong(4)[OF gpuView_loader(1), of u img s]
    unfolding LoadTexImage2D by simp
next
  case (FetchImageDone t i)
  show ?thesis
    using assms(1,2) gpuView_cong(1)[OF gpuView_fetchImageDone, of t i s]
      gpuView_cong(4)[OF gpuView_fetchImageDone, of t i s]
    unfolding FetchImageDone by simp
next
  case (DiscardTexImage2D u)
  show ?thesis
    using assms(1,2) gpuView_cong(1)[OF gpuView_loader(3), of u s]
      gpuView_cong(4)[OF gpuView_loader(3), of u s]
    unfolding DiscardTexImage2D by simp
next
  case Render
  then show ?thesis
    using assms(1,2) gpuView_cong(1)[OF gpuView_render_composed]
      gpuView_cong(4)[OF gpuView_render_composed] by simp
next
  case (SetLayers ls)
  then show ?thesis using assms(3) by simp
next
  case (SetImageSize v)
  then show ?thesis
    using assms(1,2,4) by (auto simp: composed_def needsOffscreen_def roundedSize_def)
qed (use assms(1,2) in \<open>simp_all add: composed_def needsOffscreen_def roundedSize_def\<close>)

lemma composed_run:
  "composed s \<Longrightarrow> roundedSize s = rs \<Longrightarrow> \<not> list_ex replacesStack evs \<Longrightarrow>
   list_all (keepsRoundedSize rs) evs \<Longrightarrow> composed (run s evs)"
proof (induction evs arbitrary: s)
  case Nil
  then show ?case by (simp add: run_Nil)
next
  case (Cons e evs)
  have "composed (step s e) \<and> roundedSize (step s e) = rs"
    using Cons.prems by (intro composed_step) simp_all
  then show ?case using Cons by (simp add: run_Cons)
qed

lemma roundedSize_render: "roundedSize (render s) = roundedSize s"
proof -
  have "imageSize (render s) = imageSize s"
    using gpuView_render[of s]
    by (simp add: gpuView_def renderLayersToFramebuffer_keeps)
  then show ?thesis by (simp add: roundedSize_def)
qed

section \<open>Evaluating a render\<close>

lemma ceilPow2_1000: "ceilPow2 (Num 1000) = Num 1024"
  by simp

lemmas render_eval =
  render_unfold renderLayersToFramebuffer_def Let_def updateOffscreen_nf needsOffscreen_def
  roundedSize_def remakeEffects_def alsoGone_def forEach_nf emit_def present_nf vequals_def
  discardStale_def discardIfStale_def discardTexImage2D_nf layerImage_dispose_nf
  stampLayer_def stampEntry_def ceilPow2_100 ceilPow2_1000

lemma resizedRun_fields:
  "offscreenWriteFramebuffer resizedRun = Some 0"
  "offscreenWriteColorAttachment resizedRun = Some 1"
  "layerVersion resizedRun \<le> offlineLayerVersion resizedRun"
  "nextHandle resizedRun = 4"
  "offscreenSize resizedRun = \<lparr>vx = Num 128, vy = Num 128\<rparr>"
  by (simp_all add: resizedRun_def run_def exampleCompositor_def newLayerCompositor_def
      render_eval del: ceilPow2.simps)

section \<open>The viewport\<close>


section \<open>The claims\<close>










text \<open>
  C5, as amended. Let a compositor reached from its construction render, with an image
  size whose rounded size is a number, and let any events follow that neither replace
  the stack nor change the rounded size of the image. On the next \<open>render\<close>,
  \<open>renderLayersToFramebuffer\<close> does nothing at all: no buffer is remade, cleared or
  drawn into, and the offscreen size, framebuffers and attachments are the ones before
  the call. The call still clears the canvas and draws the presentation quad from the
  write attachment; what follows is at most the eviction of stale images, when
  \<open>autoDiscard\<close> is set.
\<close>

theorem recomposition_cached:
  assumes "s0 = run (newLayerCompositor canvas dpr bitmaps) evs0"
    and "vequals (roundedSize s0) (roundedSize s0)"
    and "\<not> list_ex replacesStack evs"
    and "list_all (keepsRoundedSize (roundedSize s0)) evs"
    and "s = run (render s0) evs"
  shows "renderLayersToFramebuffer (s\<lparr>renderId := renderId s + 1\<rparr>) = s\<lparr>renderId := renderId s + 1\<rparr> \<and>
         (\<exists>a es. offscreenWriteColorAttachment s = Some a \<and>
            effects (render s) =
              effects s @
              [Clear CanvasFramebuffer,
               RenderBufferGeometry CanvasFramebuffer
                 (presentUniforms a (s\<lparr>renderId := renderId s + 1\<rparr>)) CopySourceBlendState] @ es \<and>
            list_all isEviction es \<and> (autoDiscard s \<or> es = [])) \<and>
         offscreenSize (render s) = offscreenSize s \<and>
         offscreenWriteFramebuffer (render s) = offscreenWriteFramebuffer s \<and>
         offscreenWriteColorAttachment (render s) = offscreenWriteColorAttachment s \<and>
         offscreenReadFramebuffer (render s) = offscreenReadFramebuffer s \<and>
         offscreenReadColorAttachment (render s) = offscreenReadColorAttachment s"
proof -
  have "allocated s0" unfolding assms(1) by (simp add: allocated_run allocated_new)
  then have "composed (render s0)" using assms(2) by (rule composed_render)
  then have c: "composed s"
    unfolding assms(5) using roundedSize_render assms(3,4) by (rule composed_run)
  then obtain a where a: "offscreenWriteColorAttachment s = Some a"
    by (auto simp: composed_def)
  let ?x = "s\<lparr>renderId := renderId s + 1\<rparr>"
  have r: "render s = (if autoDiscard s then discardStale (present a ?x) else present a ?x)"
    using c a by (rule render_composed)
  obtain es where es: "effects (discardStale (present a ?x)) = effects (present a ?x) @ es"
    "list_all isEviction es"
    unfolding discardStale_def using eviction_loop by blast
  have p: "effects (present a ?x) = effects s @
              [Clear CanvasFramebuffer,
               RenderBufferGeometry CanvasFramebuffer (presentUniforms a ?x) CopySourceBlendState]"
    by (simp add: present_nf)
  have e: "\<exists>es. effects (render s) =
              effects s @
              [Clear CanvasFramebuffer,
               RenderBufferGeometry CanvasFramebuffer (presentUniforms a ?x) CopySourceBlendState] @ es \<and>
            list_all isEviction es \<and> (autoDiscard s \<or> es = [])"
  proof (cases "autoDiscard s")
    case True
    then show ?thesis using es p r by auto
  next
    case False
    then show ?thesis using p r by auto
  qed
  have g: "gpuView (render s) = gpuView s" using c by (rule gpuView_render_composed)
  have k: "renderLayersToFramebuffer ?x = ?x" using c by (rule composed_skip)
  show ?thesis
    using k a e g unfolding gpuView_def by simp
qed

text \<open>
  Witness of C5: after the first render the image size goes from 100 by 100 to 120 by
  100, which rounds to 128 by 128 as before, and a load is requested; the next render
  leaves the write target as it is.
\<close>

theorem recomposition_cached_witness:
  "vequals (roundedSize (run exampleCompositor [SetImageSize \<lparr>vx = Num 100, vy = Num 100\<rparr>]))
     (roundedSize (run exampleCompositor [SetImageSize \<lparr>vx = Num 100, vy = Num 100\<rparr>])) \<and>
   \<not> list_ex replacesStack [SetImageSize \<lparr>vx = Num 120, vy = Num 100\<rparr>, LoadTexImage2D ''a'' None] \<and>
   list_all (keepsRoundedSize \<lparr>vx = Num 128, vy = Num 128\<rparr>)
     [SetImageSize \<lparr>vx = Num 120, vy = Num 100\<rparr>, LoadTexImage2D ''a'' None] \<and>
   renderLayersToFramebuffer (presentedRun\<lparr>renderId := renderId presentedRun + 1\<rparr>) =
     presentedRun\<lparr>renderId := renderId presentedRun + 1\<rparr> \<and>
   offscreenWriteFramebuffer presentedRun = Some 0 \<and>
   offscreenWriteFramebuffer (render presentedRun) = Some 0 \<and>
   offscreenWriteColorAttachment (render presentedRun) = Some 1"
proof -
  let ?s0 = "run (newLayerCompositor \<lparr>vx = Num 800, vy = Num 600\<rparr> (Num 1) True)
               [SetImageSize \<lparr>vx = Num 100, vy = Num 100\<rparr>]"
  let ?evs = "[SetImageSize \<lparr>vx = Num 120, vy = Num 100\<rparr>, LoadTexImage2D ''a'' None]"
  have h2: "vequals (roundedSize ?s0) (roundedSize ?s0)"
    by (simp add: run_def roundedSize_def vequals_def newLayerCompositor_def ceilPow2_100
        del: ceilPow2.simps)
  have r: "roundedSize ?s0 = \<lparr>vx = Num 128, vy = Num 128\<rparr>"
    by (simp add: run_def roundedSize_def newLayerCompositor_def ceilPow2_100
        del: ceilPow2.simps)
  have c: "ceilPow2 (Num 120) = Num 128" by simp
  have h3: "\<not> list_ex replacesStack ?evs"
    and h4': "list_all (keepsRoundedSize \<lparr>vx = Num 128, vy = Num 128\<rparr>) ?evs"
    by (simp_all add: c ceilPow2_100 del: ceilPow2.simps)
  have h4: "list_all (keepsRoundedSize (roundedSize ?s0)) ?evs"
    using h4' unfolding r .
  have p: "presentedRun = run (render ?s0) ?evs"
    by (simp add: presentedRun_def exampleCompositor_def run_def)
  have f: "offscreenWriteFramebuffer presentedRun = Some 0"
    "offscreenWriteColorAttachment presentedRun = Some 1"
    by (simp_all add: presentedRun_def run_def exampleCompositor_def newLayerCompositor_def
        render_eval loadTexImage2D_nf del: ceilPow2.simps)
  show ?thesis
    using h2 h3 h4' f recomposition_cached[OF refl h2 h3 h4 p]
    by (simp add: exampleCompositor_def)
qed

text \<open>
  Counterexample to C5 as stated: the stack has not been replaced since the first
  render, but the image size has gone from 100 by 100 to 1000 by 1000. The second render
  disposes the write framebuffer \<open>0\<close> and deletes the texture \<open>1\<close> that held the composed
  stack, and presents from a new attachment \<open>5\<close>.
\<close>

theorem stale_buffers_replaced:
  "layerVersion resizedRun \<le> offlineLayerVersion resizedRun \<and>
   offscreenWriteFramebuffer resizedRun = Some 0 \<and>
   offscreenWriteColorAttachment resizedRun = Some 1 \<and>
   offscreenWriteFramebuffer (render resizedRun) = Some 4 \<and>
   offscreenWriteColorAttachment (render resizedRun) = Some 5 \<and>
   take 5 (drop (length (effects resizedRun)) (effects (render resizedRun))) =
     [DisposeFramebuffer 0, NewFramebuffer 4, DeleteTexture 1,
      NewColorMipmapAttachment 5 \<lparr>vx = Num 1024, vy = Num 1024\<rparr>, Attach 4 5]"
  by (simp add: resizedRun_def run_def exampleCompositor_def newLayerCompositor_def
      render_eval del: ceilPow2.simps)

text \<open>
  C6, at an input where the code departs from it. With \<open>autoDiscard\<close> set, the image
  \<open>''a''\<close> of the one layer of the stack is cached and stamped with render id \<open>1\<close> by the
  first render. The second render finds the stack unchanged, returns from
  \<open>renderLayersToFramebuffer\<close> before the stamping, compares the stamp \<open>1\<close> with render id
  \<open>2\<close>, and discards the image of a layer that is still in the stack.
\<close>

theorem referenced_image_evicted:
  "layers evictingRun = [baseLayer] \<and> layer.url baseLayer = ''a'' \<and>
   autoDiscard evictingRun \<and> renderId evictingRun = 1 \<and>
   layerImageCache evictingRun =
     [(''a'', \<lparr>url = ''a'', texImage2D = 0, image = Some (ImageBitmap 7), disposed = False,
               renderId = 1\<rparr>)] \<and>
   layers (render evictingRun) = [baseLayer] \<and>
   layerImageCache (render evictingRun) = [] \<and>
   ''a'' \<notin> desiredImages (render evictingRun) \<and>
   drop (length (effects evictingRun) + 2) (effects (render evictingRun)) =
     [Discarded ''a'', DeleteTexture 0, CloseImageBitmap 7]"
  by (simp add: evictingRun_def run_def exampleCompositor_def newLayerCompositor_def
      render_eval loadTexImage2D_nf baseLayer_def del: ceilPow2.simps)




text \<open>
  C8. With \<open>zoomScale\<close> equal to 1, two states that differ in \<open>panPosition\<close> only have
  the same \<open>canvasImageCenter\<close> and the same presentation uniforms, and \<open>render\<close> takes
  them to states that differ in \<open>panPosition\<close> only: it issues the same effects, draw
  for draw.
\<close>

theorem zoom_identity:
  assumes "zoomScale s = Num 1"
  shows "canvasImageCenter (s\<lparr>panPosition := p\<rparr>) = canvasImageCenter (s\<lparr>panPosition := q\<rparr>) \<and>
         presentUniforms a (s\<lparr>panPosition := p\<rparr>) = presentUniforms a (s\<lparr>panPosition := q\<rparr>) \<and>
         render (s\<lparr>panPosition := p\<rparr>) = (render (s\<lparr>panPosition := q\<rparr>))\<lparr>panPosition := p\<rparr> \<and>
         effects (render (s\<lparr>panPosition := p\<rparr>)) = effects (render (s\<lparr>panPosition := q\<rparr>))"
proof -
  have z: "\<not> js_gt (zoomScale s) (Num 1)" using assms by simp
  have r: "render (s\<lparr>panPosition := p\<rparr>) = (render s)\<lparr>panPosition := p\<rparr>"
    "render (s\<lparr>panPosition := q\<rparr>) = (render s)\<lparr>panPosition := q\<rparr>"
    using z by (rule pan_render)+
  show ?thesis
    unfolding r by (simp add: pan_center[OF z] pan_presentUniforms[OF z])
qed

text \<open>
  Witness of C8: the image of 100 by 100 on the canvas of 800 by 600, panned to
  \<open>(0, 0)\<close> and to \<open>(200, 50)\<close>; the centre is \<open>(300, 300)\<close> both times.
\<close>

theorem zoom_identity_witness:
  "zoomScale stackedCompositor = Num 1 \<and>
   canvasImageCenter (stackedCompositor\<lparr>panPosition := \<lparr>vx = Num 0, vy = Num 0\<rparr>\<rparr>) =
     \<lparr>vx = Num 300, vy = Num 300\<rparr> \<and>
   canvasImageCenter (stackedCompositor\<lparr>panPosition := \<lparr>vx = Num 200, vy = Num 50\<rparr>\<rparr>) =
     \<lparr>vx = Num 300, vy = Num 300\<rparr> \<and>
   effects (render (stackedCompositor\<lparr>panPosition := \<lparr>vx = Num 0, vy = Num 0\<rparr>\<rparr>)) =
     effects (render (stackedCompositor\<lparr>panPosition := \<lparr>vx = Num 200, vy = Num 50\<rparr>\<rparr>))"
proof -
  have z: "zoomScale stackedCompositor = Num 1"
    by (simp add: stackedCompositor_nf exampleCompositor_def newLayerCompositor_def)
  have c: "canvasImageCenter (stackedCompositor\<lparr>panPosition := \<lparr>vx = Num 0, vy = Num 0\<rparr>\<rparr>) =
     \<lparr>vx = Num 300, vy = Num 300\<rparr>"
    by (simp add: canvasImageCenter_def canvasImageSize_def imageToCanvasScale_def
        multiplyByScalar_def stackedCompositor_nf exampleCompositor_def newLayerCompositor_def)
  show ?thesis
    using z c
      zoom_identity[OF z, of "\<lparr>vx = Num 0, vy = Num 0\<rparr>" "\<lparr>vx = Num 200, vy = Num 50\<rparr>"]
    by simp
qed

text \<open>
  C9. In a fragment with a mask (\<open>maskMode\<close> not zero) whose mask coordinate lies outside
  the unit square, \<open>maskMap\<close> is not sampled: \<open>maskColor\<close> starts as \<open>vec4(0.)\<close>, is still
  zero when \<open>getMaskValue\<close> receives it, and \<open>gl_FragColor\<close> is the same whatever texture
  is bound as \<open>maskMap\<close>, so no edge pixel of it enters. The colour before the blend is
  the layer colour times \<open>getMaskValue(vec4(0.))\<close>.
\<close>

theorem mask_out_of_domain:
  assumes "fragment.maskMode f \<noteq> 0"
    and "\<not> (0 \<le> fst (v_mask_uv f) \<and> fst (v_mask_uv f) \<le> 1 \<and>
            0 \<le> snd (v_mask_uv f) \<and> snd (v_mask_uv f) \<le> 1)"
  shows "MaskMap \<notin> set (sampled f) \<and>
         maskSample f = Vec4 0 0 0 0 \<and>
         maskColor f = Vec4 0 0 0 0 \<and>
         main (f\<lparr>fragment.maskMap := m\<rparr>) = main f \<and>
         maskedColor f =
           times_vec4 (times_float (if convertToPremultipliedAlpha f = 1
                          then rgb_times (fragment.layerMap f (v_layer_uv f) (fragment.mipmapBias f))
                                 (alpha (fragment.layerMap f (v_layer_uv f) (fragment.mipmapBias f)))
                          else fragment.layerMap f (v_layer_uv f) (fragment.mipmapBias f))
                     (fragment.opacity f))
             (getMaskValue f (Vec4 0 0 0 0))"
proof -
  have h: "\<not> hasMaskData f" using assms(2) by (auto simp: hasMaskData_def)
  then have h': "\<not> hasMaskData (f\<lparr>fragment.maskMap := m\<rparr>)" by (simp add: hasMaskData_def)
  have s: "maskSample f = Vec4 0 0 0 0" using h by (simp add: maskSample_def)
  have s': "maskSample (f\<lparr>fragment.maskMap := m\<rparr>) = Vec4 0 0 0 0" using h' by (simp add: maskSample_def)
  have c: "maskColor f = Vec4 0 0 0 0" and c': "maskColor (f\<lparr>fragment.maskMap := m\<rparr>) = Vec4 0 0 0 0"
    by (simp_all add: maskColor_def s s' Let_def)
  have mc: "maskedColor (f\<lparr>fragment.maskMap := m\<rparr>) = maskedColor f"
    by (simp add: maskedColor_def c c' Let_def)
  have "main (f\<lparr>fragment.maskMap := m\<rparr>) = main f"
    by (simp add: main_def mc Let_def)
  moreover have "MaskMap \<notin> set (sampled f)" using h by (simp add: sampled_def)
  moreover have "maskedColor f =
           times_vec4 (times_float (if convertToPremultipliedAlpha f = 1
                          then rgb_times (fragment.layerMap f (v_layer_uv f) (fragment.mipmapBias f))
                                 (alpha (fragment.layerMap f (v_layer_uv f) (fragment.mipmapBias f)))
                          else fragment.layerMap f (v_layer_uv f) (fragment.mipmapBias f))
                     (fragment.opacity f))
             (getMaskValue f (Vec4 0 0 0 0))"
    using assms(1) by (simp add: maskedColor_def c Let_def)
  ultimately show ?thesis using s c by simp
qed

text \<open>
  Witness of C9: a mask coordinate of \<open>(1.5, 0.5)\<close> under an alpha mask; the fragment is
  fully masked out whichever mask texture is bound.
\<close>

theorem mask_out_of_domain_witness:
  "fragment.maskMode exampleFragment \<noteq> 0 \<and>
   \<not> (0 \<le> fst (v_mask_uv exampleFragment) \<and> fst (v_mask_uv exampleFragment) \<le> 1 \<and>
            0 \<le> snd (v_mask_uv exampleFragment) \<and> snd (v_mask_uv exampleFragment) \<le> 1) \<and>
   sampled exampleFragment = [LayerMap] \<and>
   maskColor exampleFragment = Vec4 0 0 0 0 \<and>
   main exampleFragment = Vec4 0 0 0 0 \<and>
   main (exampleFragment\<lparr>fragment.maskMap := (\<lambda>uv bias. Vec4 0 0 0 (1/2))\<rparr>) = Vec4 0 0 0 0"
proof -
  have h1: "fragment.maskMode exampleFragment \<noteq> 0"
    and h2: "\<not> (0 \<le> fst (v_mask_uv exampleFragment) \<and> fst (v_mask_uv exampleFragment) \<le> 1 \<and>
            0 \<le> snd (v_mask_uv exampleFragment) \<and> snd (v_mask_uv exampleFragment) \<le> 1)"
    by (simp_all add: exampleFragment_def)
  have e: "main exampleFragment = Vec4 0 0 0 0" "sampled exampleFragment = [LayerMap]"
    by (simp_all add: exampleFragment_def main_def maskedColor_def maskColor_def maskSample_def
        hasMaskData_def sampled_def)
  show ?thesis
    using h1 h2 e mask_out_of_domain[OF h1 h2, of "\<lambda>uv bias. Vec4 0 0 0 (1/2)"] by simp
qed



end
